theory Spec2Isabelle
  imports Complex_Main
begin

section \<open>Values carried by messages\<close>

text \<open>
  A JavaScript number, as far as the program looks at it: the only operation the
  orchestrator applies to a payload is the truthiness test \<open>!payload\<close>, which is
  false for every number except zero (of either sign) and NaN.
\<close>

datatype number = NaN | Infinity | NegInfinity | Finite real

text \<open>
  \<open>Broadcastable\<close> (declared in \<open>types/main.ts\<close>): a serialisable value, that is
  null, a boolean, a number, a string, an array or an object with string keys.
\<close>

datatype Broadcastable =
    BNull
  | BBool bool
  | BNumber number
  | BString string
  | BArray "Broadcastable list"
  | BObject "(string \<times> Broadcastable) list"

text \<open>JavaScript truthiness of a value; \<open>undefined\<close> is the absent argument.\<close>

fun truthy :: "Broadcastable \<Rightarrow> bool" where
  "truthy BNull = False"
| "truthy (BBool b) = b"
| "truthy (BNumber n) = (n \<noteq> Finite 0 \<and> n \<noteq> NaN)"
| "truthy (BString s) = (s \<noteq> [])"
| "truthy (BArray xs) = True"
| "truthy (BObject kvs) = True"

fun falsy :: "Broadcastable option \<Rightarrow> bool" where
  "falsy None = True"
| "falsy (Some v) = (\<not> truthy v)"

text \<open>The frame handed to a stream: \<open>{ data: { channel, payload } }\<close>.\<close>

record Message =
  data_channel :: string
  data_payload :: Broadcastable

subsection \<open>\<open>transport_message_type.ts\<close> and the messages replicated over the bus\<close>

definition TransportMessageType_Broadcast :: nat where
  "TransportMessageType_Broadcast = 1"

definition TransportMessageType_Subscribe :: nat where
  "TransportMessageType_Subscribe = 2"

definition TransportMessageType_Unsubscribe :: nat where
  "TransportMessageType_Unsubscribe = 3"

text \<open>
  \<open>TransmitMessage\<close>: the tagged union of \<open>transmit.ts\<close>. The first argument is the
  channel; the second is the payload, which for the two subscription messages is
  \<open>{ uid }\<close>.
\<close>

datatype TransmitMessage =
    Broadcast string Broadcastable
  | Subscribe string string
  | Unsubscribe string string

fun message_type :: "TransmitMessage \<Rightarrow> nat" where
  "message_type (Broadcast c p) = TransportMessageType_Broadcast"
| "message_type (Subscribe c u) = TransportMessageType_Subscribe"
| "message_type (Unsubscribe c u) = TransportMessageType_Unsubscribe"

subsection \<open>Lifecycle events and errors\<close>

text \<open>\<open>TransmitLifecycleHooks\<close>: one constructor for each event name, with its data.\<close>

datatype 'ctx LifecycleEvent =
    ConnectEvent string 'ctx
  | DisconnectEvent string 'ctx
  | BroadcastEvent string Broadcastable
  | SubscribeEvent string string "'ctx option"
  | UnsubscribeEvent string string "'ctx option"

datatype error =
    DuplicateStream string
  | TransportWriteFailure string
  | InvalidDuration string
  | BusFailure string

section \<open>The stream manager\<close>

text \<open>
  \<open>stream_manager.ts\<close> and the stream class are not among the sources; every
  definition of this section follows the specification's description of them.
  An operation is one step: the awaited authorization predicate is its answer, and
  nothing else runs between the check and the update.
\<close>

text \<open>
  Modelled from the spec: the \<open>Stream\<close> class (absent). A stream has the uid of its
  client, the application's context value, its set of subscribed channel names (in
  insertion order, without duplicates) and a sink; \<open>sinkWritable\<close> tells whether a
  write to the sink goes through.
\<close>

record 'ctx Stream =
  getUid :: string
  getCtx :: 'ctx
  subscriptions :: "string list"
  sinkWritable :: bool

type_synonym 'ctx AccessCallback = "'ctx option \<Rightarrow> (string \<times> string) list \<Rightarrow> bool"

text \<open>
  Modelled from the spec: the \<open>StreamManager\<close> class (absent). It owns the live
  streams, in registration order, and the authorization registry, in registration
  order. The channel index and the streams' subscription sets are one relation
  (a uid is indexed for a channel exactly when its stream's set holds the channel);
  the relation is kept once, on the streams.
\<close>

record 'ctx StreamManager =
  storage :: "'ctx Stream list"
  securedChannels :: "(string \<times> 'ctx AccessCallback) list"

text \<open>Modelled from the spec: the manager's constructor (absent): nothing is registered.\<close>

definition new_StreamManager :: "'ctx StreamManager" where
  "new_StreamManager = \<lparr>storage = [], securedChannels = []\<rparr>"

subsection \<open>Channel patterns\<close>

text \<open>
  Modelled from the spec: the cutting of a channel name into its \<open>/\<close>-delimited
  segments (absent).
\<close>

fun split_on :: "char \<Rightarrow> string \<Rightarrow> string list" where
  "split_on d [] = [[]]"
| "split_on d (c # cs) =
     (if c = d then [] # split_on d cs
      else (case split_on d cs of
              [] \<Rightarrow> [[c]]
            | r # rs \<Rightarrow> (c # r) # rs))"

text \<open>
  Modelled from the spec: the compiled pattern of the matcher (absent). A pattern is
  cut at \<open>/\<close>; a segment that starts with \<open>:\<close> is a named parameter, any other
  segment is literal.
\<close>

datatype Segment = Literal string | Param string

definition compile :: "string \<Rightarrow> Segment list" where
  "compile pattern =
     map (\<lambda>seg. case seg of
                   [] \<Rightarrow> Literal []
                 | c # name \<Rightarrow> if c = CHR '':'' then Param name else Literal seg)
         (split_on CHR ''/'' pattern)"

text \<open>
  Modelled from the spec: \<open>match\<close> of the matcher (absent). The channel must have
  as many segments as the pattern; a literal segment must be equal, a parameter
  takes the segment's text.
\<close>

fun match_segments :: "Segment list \<Rightarrow> string list \<Rightarrow> (string \<times> string) list option" where
  "match_segments [] [] = Some []"
| "match_segments (Literal l # ps) (s # ss) =
     (if l = s then match_segments ps ss else None)"
| "match_segments (Param n # ps) (s # ss) =
     (case match_segments ps ss of
        None \<Rightarrow> None
      | Some params \<Rightarrow> Some ((n, s) # params))"
| "match_segments _ _ = None"

definition match_channel :: "Segment list \<Rightarrow> string \<Rightarrow> (string \<times> string) list option" where
  "match_channel compiled concreteChannel =
     match_segments compiled (split_on CHR ''/'' concreteChannel)"

text \<open>
  Modelled from the spec: the fall-back of the authorization lookup (absent): the
  first registered pattern, in registration order, that matches the channel.
\<close>

fun first_match ::
  "(string \<times> 'ctx AccessCallback) list \<Rightarrow> string
     \<Rightarrow> ('ctx AccessCallback \<times> (string \<times> string) list) option" where
  "first_match [] channel = None"
| "first_match ((pattern, callback) # rest) channel =
     (case match_channel (compile pattern) channel of
        Some params \<Rightarrow> Some (callback, params)
      | None \<Rightarrow> first_match rest channel)"

text \<open>
  Modelled from the spec: the authorization lookup of \<open>subscribe\<close> (absent). The
  entry registered under the channel's own text is looked up first, then the
  patterns in registration order; a channel that no entry matches is open. The
  predicate's answer is its awaited value, \<open>False\<close> when it rejects.
\<close>

definition verifyAccess :: "'ctx StreamManager \<Rightarrow> string \<Rightarrow> 'ctx option \<Rightarrow> bool" where
  "verifyAccess m channel context =
     (case map_of (securedChannels m) channel of
        Some callback \<Rightarrow>
          (case match_channel (compile channel) channel of
             Some params \<Rightarrow> callback context params
           | None \<Rightarrow> callback context [])
      | None \<Rightarrow>
          (case first_match (securedChannels m) channel of
             Some (callback, params) \<Rightarrow> callback context params
           | None \<Rightarrow> True))"

text \<open>
  Modelled from the spec: \<open>authorize(pattern, callback)\<close> (absent): registers the
  entry, replacing the callback of a pattern registered before.
\<close>

definition manager_authorize ::
  "string \<Rightarrow> 'ctx AccessCallback \<Rightarrow> 'ctx StreamManager \<Rightarrow> 'ctx StreamManager" where
  "manager_authorize pattern callback m =
     (if pattern \<in> fst ` set (securedChannels m)
      then m\<lparr>securedChannels :=
               map (\<lambda>(p, c). if p = pattern then (p, callback) else (p, c)) (securedChannels m)\<rparr>
      else m\<lparr>securedChannels := securedChannels m @ [(pattern, callback)]\<rparr>)"

subsection \<open>Streams and subscriptions\<close>

text \<open>Modelled from the spec: whether the uid has a live stream (absent).\<close>

definition hasStream :: "'ctx StreamManager \<Rightarrow> string \<Rightarrow> bool" where
  "hasStream m uid = (uid \<in> getUid ` set (storage m))"

text \<open>
  Modelled from the spec: \<open>createStream\<close> of the manager (absent): a uid that has a
  live stream is rejected; otherwise the stream is registered and \<open>onConnect\<close> runs
  once.
\<close>

definition manager_createStream ::
  "string \<Rightarrow> 'ctx \<Rightarrow> ('w \<Rightarrow> 'w) \<Rightarrow> 'ctx StreamManager \<Rightarrow> 'w
     \<Rightarrow> error + ('ctx StreamManager \<times> 'w)" where
  "manager_createStream uid context onConnect m w =
     (if hasStream m uid then Inl (DuplicateStream uid)
      else Inr (m\<lparr>storage := storage m @
                   [\<lparr>getUid = uid, getCtx = context, subscriptions = [],
                     sinkWritable = True\<rparr>]\<rparr>,
                onConnect w))"

text \<open>
  Modelled from the spec: \<open>UnsubscribeParams\<close> and \<open>SubscribeParams\<close> (absent),
  without their callback, which the operations below take as an argument of its
  own. An omitted context is \<open>None\<close>; an omitted \<open>skipAuthorization\<close> is \<open>False\<close>.
\<close>

record 'ctx UnsubscribeParams =
  uid :: string
  channel :: string
  ctx :: "'ctx option"

record 'ctx SubscribeParams = "'ctx UnsubscribeParams" +
  skipAuthorization :: bool

type_synonym ('ctx, 'w) OnChange = "(string \<Rightarrow> string \<Rightarrow> 'ctx option \<Rightarrow> 'w \<Rightarrow> 'w) option"

text \<open>
  Modelled from the spec: the two updates of the subscription relation and its
  lookup (absent). Adding a channel that is there, or removing one that is not,
  changes nothing.
\<close>

definition storage_subscribe :: "string \<Rightarrow> string \<Rightarrow> 'ctx StreamManager \<Rightarrow> 'ctx StreamManager" where
  "storage_subscribe u c m =
     m\<lparr>storage :=
         map (\<lambda>s. if getUid s = u then s\<lparr>subscriptions := List.insert c (subscriptions s)\<rparr> else s)
             (storage m)\<rparr>"

definition storage_unsubscribe :: "string \<Rightarrow> string \<Rightarrow> 'ctx StreamManager \<Rightarrow> 'ctx StreamManager" where
  "storage_unsubscribe u c m =
     m\<lparr>storage :=
         map (\<lambda>s. if getUid s = u then s\<lparr>subscriptions := removeAll c (subscriptions s)\<rparr> else s)
             (storage m)\<rparr>"

definition isSubscribed :: "'ctx StreamManager \<Rightarrow> string \<Rightarrow> string \<Rightarrow> bool" where
  "isSubscribed m u c = (\<exists>s \<in> set (storage m). getUid s = u \<and> c \<in> set (subscriptions s))"

text \<open>Modelled from the spec: \<open>onSubscribe?.(...)\<close>, the call of an optional callback.\<close>

definition run_callback :: "('ctx, 'w) OnChange \<Rightarrow> string \<Rightarrow> string \<Rightarrow> 'ctx option \<Rightarrow> 'w \<Rightarrow> 'w" where
  "run_callback cb u c context w = (case cb of None \<Rightarrow> w | Some f \<Rightarrow> f u c context w)"

text \<open>
  Modelled from the spec: \<open>subscribe\<close> of the manager (absent). It answers false,
  and changes nothing, for the empty channel name, for a uid without a live
  stream, and when authorization is not skipped and denies the channel. Otherwise
  the channel joins the stream's set, \<open>onSubscribe\<close> runs once and the answer is
  true.
\<close>

definition manager_subscribe ::
  "'ctx SubscribeParams \<Rightarrow> ('ctx, 'w) OnChange \<Rightarrow> 'ctx StreamManager \<Rightarrow> 'w
     \<Rightarrow> bool \<times> 'ctx StreamManager \<times> 'w" where
  "manager_subscribe params onSubscribe m w =
     (if channel params = [] then (False, m, w)
      else if \<not> hasStream m (uid params) then (False, m, w)
      else if \<not> skipAuthorization params \<and> \<not> verifyAccess m (channel params) (ctx params)
        then (False, m, w)
      else (True,
            storage_subscribe (uid params) (channel params) m,
            run_callback onSubscribe (uid params) (channel params) (ctx params) w))"

text \<open>
  Modelled from the spec: \<open>unsubscribe\<close> of the manager (absent). The channel
  leaves the stream's set when it is there; \<open>onUnsubscribe\<close> runs only when a
  removal occurred, and the answer tells whether it did.
\<close>

definition manager_unsubscribe ::
  "'ctx UnsubscribeParams \<Rightarrow> ('ctx, 'w) OnChange \<Rightarrow> 'ctx StreamManager \<Rightarrow> 'w
     \<Rightarrow> bool \<times> 'ctx StreamManager \<times> 'w" where
  "manager_unsubscribe params onUnsubscribe m w =
     (if isSubscribed m (uid params) (channel params)
      then (True,
            storage_unsubscribe (uid params) (channel params) m,
            run_callback onUnsubscribe (uid params) (channel params) (ctx params) w)
      else (False, m, w))"

text \<open>
  Modelled from the spec: \<open>findByChannel\<close> (absent): the live streams indexed for
  exactly this channel name.
\<close>

definition findByChannel :: "'ctx StreamManager \<Rightarrow> string \<Rightarrow> 'ctx Stream list" where
  "findByChannel m c = filter (\<lambda>s. c \<in> set (subscriptions s)) (storage m)"

text \<open>
  Modelled from the spec: \<open>getAllSubscribers\<close> (absent): every live stream with
  its subscription set.
\<close>

definition getAllSubscribers :: "'ctx StreamManager \<Rightarrow> ('ctx Stream \<times> string list) list" where
  "getAllSubscribers m = map (\<lambda>s. (s, subscriptions s)) (storage m)"

subsection \<open>Writing to a stream\<close>

text \<open>
  Modelled from the spec: the sinks (external). \<open>Sinks\<close> is what the sinks of the
  instance have been handed: one entry for each call of \<open>writeMessage\<close>, with the
  uid of the stream, the frame, and whether the sink took it.
\<close>

type_synonym Sinks = "(string \<times> Message \<times> bool) list"

datatype SinkResult = Written | Failed

definition sink_write :: "'ctx Stream \<Rightarrow> Message \<Rightarrow> SinkResult" where
  "sink_write s message = (if sinkWritable s then Written else Failed)"

text \<open>
  Modelled from the spec: \<open>writeMessage\<close> of the stream (absent). The write to the
  sink may fail; the failure is caught at the stream and the call returns, so no
  exception reaches the caller.
\<close>

definition writeMessage :: "'ctx Stream \<Rightarrow> Message \<Rightarrow> Sinks \<Rightarrow> error + Sinks" where
  "writeMessage s message sinks =
     (case sink_write s message of
        Written \<Rightarrow> Inr (sinks @ [(getUid s, message, True)])
      | Failed \<Rightarrow> Inr (sinks @ [(getUid s, message, False)]))"

section \<open>The bus and the timer, as the orchestrator uses them\<close>

text \<open>
  The bus of \<open>@boringnode/bus\<close> is an external library. Its state here is what the
  orchestrator can cause: the topics it subscribed to, the messages it published
  (topic and message, in order), and whether it has been disconnected. The results
  of \<open>subscribe\<close> and \<open>publish\<close> are discarded by every caller (\<open>void\<close>), so the two
  are their call. The result of \<open>disconnect\<close> is awaited by \<open>shutdown\<close>: what the
  transport does then, and whether it fails, is an argument of \<open>shutdown\<close>. A
  \<open>disconnect\<close> that rejects gives its error and the bus as it left it.
\<close>

type_synonym Transport = string

record Bus =
  transport :: Transport
  retryQueue :: bool
  subscribedTopics :: "string list"
  published :: "(string \<times> TransmitMessage) list"
  disconnected :: bool

definition new_Bus :: "Transport \<Rightarrow> bool \<Rightarrow> Bus" where
  "new_Bus tr retry =
     \<lparr>transport = tr, retryQueue = retry, subscribedTopics = [], published = [],
      disconnected = False\<rparr>"

definition Bus_subscribe :: "string \<Rightarrow> Bus \<Rightarrow> Bus" where
  "Bus_subscribe topic b = b\<lparr>subscribedTopics := subscribedTopics b @ [topic]\<rparr>"

definition Bus_publish :: "string \<Rightarrow> TransmitMessage \<Rightarrow> Bus \<Rightarrow> Bus" where
  "Bus_publish topic message b = b\<lparr>published := published b @ [(topic, message)]\<rparr>"

type_synonym Disconnect = "Bus \<Rightarrow> (error \<times> Bus) + Bus"

text \<open>
  The handle that \<open>setInterval\<close> returns: its period, and whether \<open>clearInterval\<close>
  has stopped it. Clearing a stopped timer changes nothing, as in Node.
\<close>

record Timeout =
  delay :: number
  cleared :: bool

definition setInterval :: "number \<Rightarrow> Timeout" where
  "setInterval ms = \<lparr>delay = ms, cleared = False\<rparr>"

definition clearInterval :: "Timeout \<Rightarrow> Timeout" where
  "clearInterval i = i\<lparr>cleared := True\<rparr>"

section \<open>The orchestrator: \<open>transmit.ts\<close>\<close>

text \<open>
  \<open>TransmitConfig\<close> (declared in \<open>types/main.ts\<close>): the ping interval is absent,
  \<open>false\<close>, a number of milliseconds or a duration string; the transport section
  is absent or may name the channel of the bus.
\<close>

datatype PingInterval = PingFalse | PingNumber number | PingString string

record TransportConfig =
  transportConfig_channel :: "string option"

record TransmitConfig =
  pingInterval :: "PingInterval option"
  config_transport :: "TransportConfig option"

fun pingInterval_truthy :: "PingInterval option \<Rightarrow> bool" where
  "pingInterval_truthy None = False"
| "pingInterval_truthy (Some PingFalse) = False"
| "pingInterval_truthy (Some (PingNumber n)) = (n \<noteq> Finite 0 \<and> n \<noteq> NaN)"
| "pingInterval_truthy (Some (PingString s)) = (s \<noteq> [])"

text \<open>
  The fields of the class, and \<open>sinks\<close>: what the streams of this instance have
  been handed so far. \<open>emittery\<close> is the sequence of lifecycle events emitted.
\<close>

record 'ctx Transmit =
  config :: TransmitConfig
  manager :: "'ctx StreamManager"
  transportChannel :: string
  bus :: "Bus option"
  emittery :: "'ctx LifecycleEvent list"
  interval :: "Timeout option"
  sinks :: Sinks

text \<open>\<open>void this.#emittery.emit(...)\<close>\<close>

definition emit :: "'ctx LifecycleEvent \<Rightarrow> 'ctx Transmit \<Rightarrow> 'ctx Transmit" where
  "emit event t = t\<lparr>emittery := emittery t @ [event]\<rparr>"

text \<open>\<open>void this.#bus?.publish(this.#transportChannel, message)\<close>\<close>

definition publish :: "TransmitMessage \<Rightarrow> 'ctx Transmit \<Rightarrow> 'ctx Transmit" where
  "publish message t =
     (case bus t of
        None \<Rightarrow> t
      | Some b \<Rightarrow> t\<lparr>bus := Some (Bus_publish (transportChannel t) message b)\<rparr>)"

text \<open>
  The constructor. \<open>parse\<close> stands for \<open>string.milliseconds.parse\<close> of
  \<open>@poppinss/utils\<close>, which may throw. The timer is started for a truthy ping
  interval only, which is a number or a string.
\<close>

definition new_Transmit ::
  "(string \<Rightarrow> error + number) \<Rightarrow> TransmitConfig \<Rightarrow> Transport option
     \<Rightarrow> error + 'ctx Transmit" where
  "new_Transmit parse cfg tr =
     (let b = (case tr of Some x \<Rightarrow> Some (new_Bus x True) | None \<Rightarrow> None);
          c = (case config_transport cfg of
                 None \<Rightarrow> ''transmit::broadcast''
               | Some tc \<Rightarrow>
                   (case transportConfig_channel tc of
                      None \<Rightarrow> ''transmit::broadcast''
                    | Some name \<Rightarrow> name));
          b' = (case b of Some x \<Rightarrow> Some (Bus_subscribe c x) | None \<Rightarrow> None);
          t = \<lparr>config = cfg, manager = new_StreamManager, transportChannel = c, bus = b',
               emittery = [], interval = None, sinks = []\<rparr>
      in if pingInterval_truthy (pingInterval cfg)
         then (case pingInterval cfg of
                 Some (PingNumber n) \<Rightarrow> Inr (t\<lparr>interval := Some (setInterval n)\<rparr>)
               | Some (PingString s) \<Rightarrow>
                   (case parse s of
                      Inl e \<Rightarrow> Inl e
                    | Inr ms \<Rightarrow> Inr (t\<lparr>interval := Some (setInterval ms)\<rparr>))
               | _ \<Rightarrow> Inr t)
         else Inr t)"

definition createStream :: "string \<Rightarrow> 'ctx \<Rightarrow> 'ctx Transmit \<Rightarrow> error + 'ctx Transmit" where
  "createStream u context t =
     (case manager_createStream u context (emit (ConnectEvent u context)) (manager t) t of
        Inl e \<Rightarrow> Inl e
      | Inr (m', t') \<Rightarrow> Inr (t'\<lparr>manager := m'\<rparr>))"

definition authorize :: "string \<Rightarrow> 'ctx AccessCallback \<Rightarrow> 'ctx Transmit \<Rightarrow> 'ctx Transmit" where
  "authorize c callback t = t\<lparr>manager := manager_authorize c callback (manager t)\<rparr>"

subsection \<open>Subscriptions\<close>

definition subscribeLocally :: "'ctx SubscribeParams \<Rightarrow> 'ctx Transmit \<Rightarrow> bool \<times> 'ctx Transmit" where
  "subscribeLocally params t =
     (case manager_subscribe (params\<lparr>skipAuthorization := True\<rparr>) None (manager t) t of
        (ok, m', t') \<Rightarrow> (ok, t'\<lparr>manager := m'\<rparr>))"

definition subscribe :: "'ctx SubscribeParams \<Rightarrow> 'ctx Transmit \<Rightarrow> bool \<times> 'ctx Transmit" where
  "subscribe params t =
     (case manager_subscribe params
             (Some (\<lambda>u c context w.
                publish (Subscribe c u) (emit (SubscribeEvent u c context) w)))
             (manager t) t of
        (ok, m', t') \<Rightarrow> (ok, t'\<lparr>manager := m'\<rparr>))"

definition unsubscribeLocally :: "'ctx UnsubscribeParams \<Rightarrow> 'ctx Transmit \<Rightarrow> bool \<times> 'ctx Transmit" where
  "unsubscribeLocally params t =
     (case manager_unsubscribe params None (manager t) t of
        (ok, m', t') \<Rightarrow> (ok, t'\<lparr>manager := m'\<rparr>))"

definition unsubscribe :: "'ctx UnsubscribeParams \<Rightarrow> 'ctx Transmit \<Rightarrow> bool \<times> 'ctx Transmit" where
  "unsubscribe params t =
     (case manager_unsubscribe params
             (Some (\<lambda>u c context w.
                publish (Unsubscribe c u) (emit (UnsubscribeEvent u c context) w)))
             (manager t) t of
        (ok, m', t') \<Rightarrow> (ok, t'\<lparr>manager := m'\<rparr>))"

subsection \<open>Fan-out\<close>

text \<open>The third argument of \<open>#broadcastLocally\<close>: a uid, or an array of uids.\<close>

datatype SenderUid = Uid string | Uids "string list"

text \<open>
  The test of the loop:
  \<open>Array.isArray(senderUid) ? senderUid.includes(uid) : senderUid === uid\<close>;
  an absent \<open>senderUid\<close> equals no uid.
\<close>

fun skipped :: "SenderUid option \<Rightarrow> string \<Rightarrow> bool" where
  "skipped None u = False"
| "skipped (Some (Uids us)) u = (u \<in> set us)"
| "skipped (Some (Uid x)) u = (x = u)"

text \<open>
  The loop of \<open>#broadcastLocally\<close>. It has no handler of its own: an exception of
  \<open>writeMessage\<close> would leave the loop.
\<close>

fun fanOut :: "'ctx Stream list \<Rightarrow> Message \<Rightarrow> SenderUid option \<Rightarrow> Sinks \<Rightarrow> error + Sinks" where
  "fanOut [] message senderUid out = Inr out"
| "fanOut (subscriber # rest) message senderUid out =
     (if skipped senderUid (getUid subscriber) then fanOut rest message senderUid out
      else (case writeMessage subscriber message out of
              Inl e \<Rightarrow> Inl e
            | Inr out' \<Rightarrow> fanOut rest message senderUid out'))"

definition broadcastLocally ::
  "string \<Rightarrow> Broadcastable \<Rightarrow> SenderUid option \<Rightarrow> 'ctx Transmit \<Rightarrow> error + 'ctx Transmit" where
  "broadcastLocally c p senderUid t =
     (let subscribers = findByChannel (manager t) c
      in case fanOut subscribers \<lparr>data_channel = c, data_payload = p\<rparr> senderUid (sinks t) of
           Inl e \<Rightarrow> Inl e
         | Inr out \<Rightarrow> Inr (t\<lparr>sinks := out\<rparr>))"

definition broadcastExcept ::
  "string \<Rightarrow> Broadcastable \<Rightarrow> SenderUid \<Rightarrow> 'ctx Transmit \<Rightarrow> error + 'ctx Transmit" where
  "broadcastExcept c p senderUid t = broadcastLocally c p (Some senderUid) t"

text \<open>The first statement of \<open>broadcast\<close>: \<open>if (!payload) { payload = {} }\<close>.\<close>

definition payloadOrEmpty :: "Broadcastable option \<Rightarrow> Broadcastable" where
  "payloadOrEmpty payload =
     (case payload of
        None \<Rightarrow> BObject []
      | Some v \<Rightarrow> if \<not> truthy v then BObject [] else v)"

definition broadcast ::
  "string \<Rightarrow> Broadcastable option \<Rightarrow> 'ctx Transmit \<Rightarrow> error + 'ctx Transmit" where
  "broadcast c payload t =
     (let p = payloadOrEmpty payload;
          t1 = publish (Broadcast c p) t
      in case broadcastLocally c p None t1 of
           Inl e \<Rightarrow> Inl e
         | Inr t2 \<Rightarrow> Inr (emit (BroadcastEvent c p) t2))"

subsection \<open>Messages from the bus\<close>

text \<open>
  The handler given to \<open>bus.subscribe\<close> in the constructor. The three constructors
  are the three values of \<open>type\<close> that the handler tests, in its order.
\<close>

fun onBusMessage :: "TransmitMessage \<Rightarrow> 'ctx Transmit \<Rightarrow> error + 'ctx Transmit" where
  "onBusMessage (Broadcast c p) t = broadcastLocally c p None t"
| "onBusMessage (Subscribe c u) t =
     Inr (snd (subscribeLocally \<lparr>uid = u, channel = c, ctx = None, skipAuthorization = False\<rparr> t))"
| "onBusMessage (Unsubscribe c u) t =
     Inr (snd (unsubscribeLocally \<lparr>uid = u, channel = c, ctx = None\<rparr> t))"

subsection \<open>Keepalive and shutdown\<close>

fun pingAll :: "('ctx Stream \<times> string list) list \<Rightarrow> Sinks \<Rightarrow> error + Sinks" where
  "pingAll [] out = Inr out"
| "pingAll ((stream, chans) # rest) out =
     (case writeMessage stream
             \<lparr>data_channel = ''$$transmit/ping'', data_payload = BObject []\<rparr> out of
        Inl e \<Rightarrow> Inl e
      | Inr out' \<Rightarrow> pingAll rest out')"

definition ping :: "'ctx Transmit \<Rightarrow> error + 'ctx Transmit" where
  "ping t =
     (case pingAll (getAllSubscribers (manager t)) (sinks t) of
        Inl e \<Rightarrow> Inl e
      | Inr out \<Rightarrow> Inr (t\<lparr>sinks := out\<rparr>))"

text \<open>One period of the timer elapses: the callback runs unless the timer was cleared.\<close>

definition intervalElapsed :: "'ctx Transmit \<Rightarrow> error + 'ctx Transmit" where
  "intervalElapsed t =
     (case interval t of
        None \<Rightarrow> Inr t
      | Some i \<Rightarrow> if cleared i then Inr t else ping t)"

text \<open>
  \<open>shutdown\<close>. The field \<open>#interval\<close> is never reset, so a later call clears the
  same handle again. \<open>await this.#bus?.disconnect()\<close>: a rejection of the bus is a
  rejection of \<open>shutdown\<close>, which then leaves the instance with its timer cleared
  already: the result on the left is the error with that instance.
\<close>

definition shutdown ::
  "Disconnect \<Rightarrow> 'ctx Transmit \<Rightarrow> (error \<times> 'ctx Transmit) + 'ctx Transmit" where
  "shutdown disconnect t =
     (let t1 = (case interval t of
                  Some i \<Rightarrow> t\<lparr>interval := Some (clearInterval i)\<rparr>
                | None \<Rightarrow> t)
      in case bus t1 of
           None \<Rightarrow> Inr t1
         | Some b \<Rightarrow>
             (case disconnect b of
                Inl (e, b') \<Rightarrow> Inl (e, t1\<lparr>bus := Some b'\<rparr>)
              | Inr b' \<Rightarrow> Inr (t1\<lparr>bus := Some b'\<rparr>)))"

section \<open>Notions used by the properties\<close>

text \<open>
  The entry that a call of \<open>writeMessage\<close> on stream \<open>s\<close>, with the frame for
  channel \<open>c\<close> and payload \<open>p\<close>, adds to the sinks.
\<close>

definition frameFor :: "string \<Rightarrow> Broadcastable \<Rightarrow> 'ctx Stream \<Rightarrow> string \<times> Message \<times> bool" where
  "frameFor c p s = (getUid s, \<lparr>data_channel = c, data_payload = p\<rparr>, sinkWritable s)"

text \<open>The instance that a call leaves behind, whether it completed or rejected.\<close>

fun instanceAfter :: "(error \<times> 'a) + 'a \<Rightarrow> 'a" where
  "instanceAfter (Inl (e, t)) = t"
| "instanceAfter (Inr t) = t"

text \<open>The exclusion set that the third argument of \<open>broadcastExcept\<close> denotes.\<close>

fun exclusionSet :: "SenderUid \<Rightarrow> string set" where
  "exclusionSet (Uid u) = {u}"
| "exclusionSet (Uids us) = set us"

subsection \<open>An instance with three streams\<close>

text \<open>
  Bob's connection is broken and he is first in the registry; Alice is subscribed
  to the same channel; Carol has no subscription. The channel \<open>news\<close> is secured by
  a predicate that denies everyone.
\<close>

definition bob :: "unit Stream" where
  "bob = \<lparr>getUid = ''bob'', getCtx = (), subscriptions = [''news'', ''sports''],
          sinkWritable = False\<rparr>"

definition alice :: "unit Stream" where
  "alice = \<lparr>getUid = ''alice'', getCtx = (), subscriptions = [''news''],
            sinkWritable = True\<rparr>"

definition carol :: "unit Stream" where
  "carol = \<lparr>getUid = ''carol'', getCtx = (), subscriptions = [], sinkWritable = True\<rparr>"

definition denyAll :: "unit AccessCallback" where
  "denyAll context params = False"

definition memoryBus :: Bus where
  "memoryBus = \<lparr>transport = ''memory'', retryQueue = True,
                subscribedTopics = [''transmit::broadcast''], published = [],
                disconnected = False\<rparr>"

definition instance_with_bus :: "unit Transmit" where
  "instance_with_bus =
     \<lparr>config = \<lparr>pingInterval = Some (PingNumber (Finite 30000)), config_transport = None\<rparr>,
      manager = \<lparr>storage = [bob, alice, carol], securedChannels = [(''news'', denyAll)]\<rparr>,
      transportChannel = ''transmit::broadcast'',
      bus = Some memoryBus,
      emittery = [],
      interval = Some \<lparr>delay = Finite 30000, cleared = False\<rparr>,
      sinks = []\<rparr>"

definition instance_without_bus :: "unit Transmit" where
  "instance_without_bus = instance_with_bus\<lparr>bus := None\<rparr>"

text \<open>
  Two transports: one whose \<open>disconnect\<close> may be repeated, one whose \<open>disconnect\<close>
  rejects on a connection that is closed already.
\<close>

definition lenientDisconnect :: Disconnect where
  "lenientDisconnect b = Inr (b\<lparr>disconnected := True\<rparr>)"

definition strictDisconnect :: Disconnect where
  "strictDisconnect b =
     (if disconnected b then Inl (BusFailure ''Connection is closed.'', b)
      else Inr (b\<lparr>disconnected := True\<rparr>))"

section \<open>Properties\<close>

subsection \<open>The type tag tells the three messages apart\<close>

lemma message_type_cases:
  "(message_type m = TransportMessageType_Broadcast) = (\<exists>c p. m = Broadcast c p)"
  "(message_type m = TransportMessageType_Subscribe) = (\<exists>c u. m = Subscribe c u)"
  "(message_type m = TransportMessageType_Unsubscribe) = (\<exists>c u. m = Unsubscribe c u)"
  by (cases m; simp add: TransportMessageType_Broadcast_def TransportMessageType_Subscribe_def
        TransportMessageType_Unsubscribe_def)+

subsection \<open>Writes return, and each loop visits every stream\<close>

lemma writeMessage_returns:
  "writeMessage s message out = Inr (out @ [(getUid s, message, sinkWritable s)])"
  by (simp add: writeMessage_def sink_write_def)

lemma fanOut_returns:
  "fanOut subscribers message senderUid out =
     Inr (out @ map (\<lambda>s. (getUid s, message, sinkWritable s))
                    (filter (\<lambda>s. \<not> skipped senderUid (getUid s)) subscribers))"
  by (induction subscribers arbitrary: out) (simp_all add: writeMessage_returns)

lemma pingAll_returns:
  "pingAll subs out =
     Inr (out @ map (\<lambda>(s, chans).
                       (getUid s,
                        \<lparr>data_channel = ''$$transmit/ping'', data_payload = BObject []\<rparr>,
                        sinkWritable s))
                    subs)"
  by (induction subs arbitrary: out) (auto simp add: writeMessage_returns)

lemma skipped_exclusionSet: "skipped (Some x) u \<longleftrightarrow> u \<in> exclusionSet x"
  by (cases x) auto

lemma broadcastLocally_returns:
  "broadcastLocally c p senderUid t =
     Inr (t\<lparr>sinks := sinks t @ map (frameFor c p)
                (filter (\<lambda>s. \<not> skipped senderUid (getUid s)) (findByChannel (manager t) c))\<rparr>)"
  by (simp add: broadcastLocally_def fanOut_returns frameFor_def[abs_def])

subsection \<open>Publishing and emitting touch one field each\<close>

lemma publish_fields:
  "bus (publish m t) = map_option (Bus_publish (transportChannel t) m) (bus t)"
  "manager (publish m t) = manager t"
  "sinks (publish m t) = sinks t"
  "emittery (publish m t) = emittery t"
  "transportChannel (publish m t) = transportChannel t"
  "interval (publish m t) = interval t"
  by (simp_all add: publish_def split: option.splits)

lemma emit_fields:
  "bus (emit e t) = bus t"
  "manager (emit e t) = manager t"
  "sinks (emit e t) = sinks t"
  "emittery (emit e t) = emittery t @ [e]"
  "transportChannel (emit e t) = transportChannel t"
  "interval (emit e t) = interval t"
  by (simp_all add: emit_def)

lemma payloadOrEmpty_falsy: "falsy payload \<Longrightarrow> payloadOrEmpty payload = BObject []"
  by (cases payload) (simp_all add: payloadOrEmpty_def)

lemma payloadOrEmpty_cases:
  "payloadOrEmpty payload =
     (case payload of None \<Rightarrow> BObject [] | Some v \<Rightarrow> if truthy v then v else BObject [])"
  by (simp add: payloadOrEmpty_def split: option.splits)

subsection \<open>Replayed subscriptions\<close>

lemma storage_unsubscribe_absent:
  assumes "\<not> isSubscribed m u c"
  shows "storage_unsubscribe u c m = m"
proof -
  have "map (\<lambda>s. if getUid s = u then s\<lparr>subscriptions := removeAll c (subscriptions s)\<rparr> else s)
            (storage m) = storage m"
    using assms by (intro map_idI) (auto simp add: isSubscribed_def)
  then show ?thesis
    by (simp add: storage_unsubscribe_def)
qed

lemma subscribeLocally_result:
  "subscribeLocally params t =
     (if channel params \<noteq> [] \<and> hasStream (manager t) (uid params)
      then (True, t\<lparr>manager := storage_subscribe (uid params) (channel params) (manager t)\<rparr>)
      else (False, t))"
  by (simp add: subscribeLocally_def manager_subscribe_def run_callback_def)

lemma unsubscribeLocally_result:
  "unsubscribeLocally params t =
     (if isSubscribed (manager t) (uid params) (channel params)
      then (True, t\<lparr>manager := storage_unsubscribe (uid params) (channel params) (manager t)\<rparr>)
      else (False, t))"
  by (simp add: unsubscribeLocally_def manager_unsubscribe_def run_callback_def)

lemma findByChannel_news:
  "findByChannel (manager instance_with_bus) ''news'' = [bob, alice]"
  by (simp add: findByChannel_def instance_with_bus_def bob_def alice_def carol_def)

subsection \<open>The example instance\<close>

lemma instance_with_bus_fields:
  "bus instance_with_bus = Some memoryBus"
  "sinks instance_with_bus = []"
  "emittery instance_with_bus = []"
  "transportChannel instance_with_bus = ''transmit::broadcast''"
  "interval instance_with_bus = Some \<lparr>delay = Finite 30000, cleared = False\<rparr>"
  "storage (manager instance_with_bus) = [bob, alice, carol]"
  by (simp_all add: instance_with_bus_def)

lemma instance_without_bus_fields:
  "bus instance_without_bus = None"
  "sinks instance_without_bus = []"
  "emittery instance_without_bus = []"
  "manager instance_without_bus = manager instance_with_bus"
  "interval instance_without_bus = interval instance_with_bus"
  by (simp_all add: instance_without_bus_def instance_with_bus_def)

lemma frames_bob_alice:
  "frameFor c p bob = (''bob'', \<lparr>data_channel = c, data_payload = p\<rparr>, False)"
  "frameFor c p alice = (''alice'', \<lparr>data_channel = c, data_payload = p\<rparr>, True)"
  "frameFor c p carol = (''carol'', \<lparr>data_channel = c, data_payload = p\<rparr>, True)"
  by (simp_all add: frameFor_def bob_def alice_def carol_def)

lemma uids_bob_alice_carol:
  "getUid bob = ''bob''" "getUid alice = ''alice''" "getUid carol = ''carol''"
  by (simp_all add: bob_def alice_def carol_def)

subsection \<open>Broadcasts that arrive from the bus\<close>

text \<open>
  C1. A Broadcast message received from the bus is fanned out locally, to every
  stream indexed for its channel, and nothing else happens: the handler returns,
  the bus is as it was (nothing is published back), and no lifecycle event is
  emitted, so in particular no \<open>broadcast\<close> event.
\<close>

theorem bus_broadcast_is_local_only:
  "\<exists>t'. onBusMessage (Broadcast c p) t = Inr t' \<and>
        sinks t' = sinks t @ map (frameFor c p) (findByChannel (manager t) c) \<and>
        bus t' = bus t \<and> emittery t' = emittery t \<and> manager t' = manager t"
  by (simp add: broadcastLocally_returns)

theorem bus_broadcast_is_local_only_witness:
  "\<exists>t'. onBusMessage (Broadcast ''news'' (BString ''hello'')) instance_with_bus = Inr t' \<and>
        sinks t' =
          [(''bob'', \<lparr>data_channel = ''news'', data_payload = BString ''hello''\<rparr>, False),
           (''alice'', \<lparr>data_channel = ''news'', data_payload = BString ''hello''\<rparr>, True)] \<and>
        bus t' = Some memoryBus \<and> emittery t' = []"
  using bus_broadcast_is_local_only [of "''news''" "BString ''hello''" instance_with_bus]
  by (auto simp add: findByChannel_news frames_bob_alice instance_with_bus_fields)

subsection \<open>\<open>broadcast\<close>\<close>

text \<open>
  C2, as the code has it. \<open>broadcast(channel, payload)\<close> works on the payload it
  was given when that payload is truthy, and on the empty object \<open>{}\<close> when it is
  absent or falsy. With that payload \<open>p\<close>: a Broadcast message for the channel and
  \<open>p\<close> is published on the transport channel exactly when there is a bus (one
  message; without a bus there is still none); the frame for the channel and \<open>p\<close>
  is written to every stream indexed for the channel; and exactly one \<open>broadcast\<close>
  event, with the channel and \<open>p\<close>, is emitted, with or without a bus.
\<close>

theorem broadcast_effects:
  "\<exists>t' p. p = (case payload of None \<Rightarrow> BObject []
                              | Some v \<Rightarrow> if truthy v then v else BObject []) \<and>
          broadcast c payload t = Inr t' \<and>
          bus t' = (case bus t of
                      None \<Rightarrow> None
                    | Some b \<Rightarrow> Some (Bus_publish (transportChannel t) (Broadcast c p) b)) \<and>
          sinks t' = sinks t @ map (frameFor c p) (findByChannel (manager t) c) \<and>
          emittery t' = emittery t @ [BroadcastEvent c p] \<and>
          manager t' = manager t"
  by (cases "bus t")
     (simp_all add: broadcast_def Let_def broadcastLocally_returns publish_fields emit_fields
        payloadOrEmpty_cases)

theorem broadcast_effects_witness:
  "\<exists>t'. broadcast ''news'' (Some (BString ''hello'')) instance_without_bus = Inr t' \<and>
        bus t' = None \<and>
        sinks t' =
          [(''bob'', \<lparr>data_channel = ''news'', data_payload = BString ''hello''\<rparr>, False),
           (''alice'', \<lparr>data_channel = ''news'', data_payload = BString ''hello''\<rparr>, True)] \<and>
        emittery t' = [BroadcastEvent ''news'' (BString ''hello'')]"
  using broadcast_effects [of "Some (BString ''hello'')" "''news''" instance_without_bus]
  by (auto simp add: instance_without_bus_fields findByChannel_news frames_bob_alice)

text \<open>
  The claim as it is worded, with the payload of the call in the message, the
  frames and the event, fails for the payload \<open>0\<close>: what is published, written and
  emitted carries \<open>{}\<close>.
\<close>

theorem broadcast_zero_payload_counterexample:
  "broadcast ''news'' (Some (BNumber (Finite 0))) instance_with_bus =
     Inr (instance_with_bus
            \<lparr>bus := Some (memoryBus
                \<lparr>published := [(''transmit::broadcast'', Broadcast ''news'' (BObject []))]\<rparr>),
             emittery := [BroadcastEvent ''news'' (BObject [])],
             sinks := [(''bob'', \<lparr>data_channel = ''news'', data_payload = BObject []\<rparr>, False),
                       (''alice'', \<lparr>data_channel = ''news'', data_payload = BObject []\<rparr>, True)]\<rparr>) \<and>
   BObject [] \<noteq> BNumber (Finite 0)"
proof -
  have p: "payloadOrEmpty (Some (BNumber (Finite 0))) = BObject []"
    by (simp add: payloadOrEmpty_def)
  have f: "findByChannel (manager (publish m instance_with_bus)) ''news'' = [bob, alice]" for m
    by (simp add: publish_fields findByChannel_news)
  show ?thesis
    by (simp add: broadcast_def Let_def p broadcastLocally_returns f frames_bob_alice)
       (simp add: publish_def emit_def Bus_publish_def instance_with_bus_def memoryBus_def)
qed

subsection \<open>\<open>broadcastExcept\<close>\<close>

text \<open>
  C3. \<open>broadcastExcept(C, payload, excluded)\<close>, for a single uid or a list of
  uids, writes the frame to exactly the streams indexed for \<open>C\<close> whose uid is not
  in the exclusion set: to each of them, and to none whose uid is excluded, also
  when that uid is subscribed to \<open>C\<close>. Nothing is published or emitted.
\<close>

theorem broadcastExcept_skips_excluded:
  "\<exists>t'. broadcastExcept c p x t = Inr t' \<and>
        sinks t' = sinks t @ map (frameFor c p)
                     (filter (\<lambda>s. getUid s \<notin> exclusionSet x) (findByChannel (manager t) c)) \<and>
        bus t' = bus t \<and> emittery t' = emittery t \<and> manager t' = manager t"
  by (simp add: broadcastExcept_def broadcastLocally_returns skipped_exclusionSet)

theorem broadcastExcept_skips_excluded_witness:
  "\<exists>t'. broadcastExcept ''news'' (BString ''hello'') (Uids [''bob'', ''dave'']) instance_with_bus
          = Inr t' \<and>
        sinks t' =
          [(''alice'', \<lparr>data_channel = ''news'', data_payload = BString ''hello''\<rparr>, True)]"
  using broadcastExcept_skips_excluded
          [of "''news''" "BString ''hello''" "Uids [''bob'', ''dave'']" instance_with_bus]
  by (auto simp add: findByChannel_news instance_with_bus_fields frames_bob_alice
        uids_bob_alice_carol)

subsection \<open>Subscriptions that arrive from the bus\<close>

text \<open>
  C4. A Subscribe message received from the bus is applied by the manager's
  \<open>subscribe\<close> with \<open>skipAuthorization\<close> true, for the uid and channel of the
  message: whenever the uid has a live stream here (and the channel name is not
  empty) the stream is subscribed, whatever the authorization registry holds. An
  Unsubscribe message is applied by the manager's \<open>unsubscribe\<close> directly: the
  channel leaves the set of that uid's stream.
\<close>

theorem bus_subscription_skips_authorization:
  "onBusMessage (Subscribe c u) t =
     (case manager_subscribe \<lparr>uid = u, channel = c, ctx = None, skipAuthorization = True\<rparr>
             None (manager t) t of
        (ok, m', t') \<Rightarrow> Inr (t'\<lparr>manager := m'\<rparr>)) \<and>
   onBusMessage (Subscribe c u) t =
     Inr (t\<lparr>manager := (if c \<noteq> [] \<and> hasStream (manager t) u
                         then storage_subscribe u c (manager t) else manager t)\<rparr>) \<and>
   onBusMessage (Unsubscribe c u) t =
     (case manager_unsubscribe \<lparr>uid = u, channel = c, ctx = None\<rparr> None (manager t) t of
        (ok, m', t') \<Rightarrow> Inr (t'\<lparr>manager := m'\<rparr>)) \<and>
   onBusMessage (Unsubscribe c u) t = Inr (t\<lparr>manager := storage_unsubscribe u c (manager t)\<rparr>)"
proof (intro conjI)
  show "onBusMessage (Subscribe c u) t =
     (case manager_subscribe \<lparr>uid = u, channel = c, ctx = None, skipAuthorization = True\<rparr>
             None (manager t) t of
        (ok, m', t') \<Rightarrow> Inr (t'\<lparr>manager := m'\<rparr>))"
    by (simp add: subscribeLocally_def split: prod.splits)
  show "onBusMessage (Subscribe c u) t =
     Inr (t\<lparr>manager := (if c \<noteq> [] \<and> hasStream (manager t) u
                         then storage_subscribe u c (manager t) else manager t)\<rparr>)"
    by (simp add: subscribeLocally_result)
  show "onBusMessage (Unsubscribe c u) t =
     (case manager_unsubscribe \<lparr>uid = u, channel = c, ctx = None\<rparr> None (manager t) t of
        (ok, m', t') \<Rightarrow> Inr (t'\<lparr>manager := m'\<rparr>))"
    by (simp add: unsubscribeLocally_def split: prod.splits)
  show "onBusMessage (Unsubscribe c u) t = Inr (t\<lparr>manager := storage_unsubscribe u c (manager t)\<rparr>)"
    by (simp add: unsubscribeLocally_result storage_unsubscribe_absent)
qed

text \<open>
  On the example instance the channel \<open>news\<close> is denied to everyone: Carol's own
  request fails, the replayed one subscribes her.
\<close>

theorem bus_subscription_skips_authorization_witness:
  "fst (subscribe \<lparr>uid = ''carol'', channel = ''news'', ctx = None, skipAuthorization = False\<rparr>
          instance_with_bus) = False \<and>
   onBusMessage (Subscribe ''news'' ''carol'') instance_with_bus =
     Inr (instance_with_bus
            \<lparr>manager := \<lparr>storage = [bob, alice, carol\<lparr>subscriptions := [''news'']\<rparr>],
                          securedChannels = [(''news'', denyAll)]\<rparr>\<rparr>) \<and>
   onBusMessage (Unsubscribe ''news'' ''alice'') instance_with_bus =
     Inr (instance_with_bus
            \<lparr>manager := \<lparr>storage = [bob, alice\<lparr>subscriptions := []\<rparr>, carol],
                          securedChannels = [(''news'', denyAll)]\<rparr>\<rparr>)"
proof -
  have denied:
    "fst (subscribe \<lparr>uid = ''carol'', channel = ''news'', ctx = None, skipAuthorization = False\<rparr>
            instance_with_bus) = False"
    by (simp add: subscribe_def manager_subscribe_def hasStream_def verifyAccess_def
          instance_with_bus_def denyAll_def compile_def match_channel_def
          bob_def alice_def carol_def)
  have live: "hasStream (manager instance_with_bus) ''carol''"
    by (simp add: hasStream_def instance_with_bus_def carol_def)
  have sub: "storage_subscribe ''carol'' ''news'' (manager instance_with_bus) =
               \<lparr>storage = [bob, alice, carol\<lparr>subscriptions := [''news'']\<rparr>],
                securedChannels = [(''news'', denyAll)]\<rparr>"
    by (simp add: storage_subscribe_def instance_with_bus_def bob_def alice_def carol_def)
  have unsub: "storage_unsubscribe ''alice'' ''news'' (manager instance_with_bus) =
               \<lparr>storage = [bob, alice\<lparr>subscriptions := []\<rparr>, carol],
                securedChannels = [(''news'', denyAll)]\<rparr>"
    by (simp add: storage_unsubscribe_def instance_with_bus_def bob_def alice_def carol_def)
  show ?thesis
    using bus_subscription_skips_authorization [of "''news''" "''carol''" instance_with_bus]
          bus_subscription_skips_authorization [of "''news''" "''alice''" instance_with_bus]
          denied live sub unsub
    by simp
qed

text \<open>
  C10. Applying a Subscribe or an Unsubscribe message received from the bus
  emits no lifecycle event and publishes nothing to the bus: the replay paths
  pass no callback. No stream is written to either.
\<close>

theorem bus_subscription_not_reflected:
  "(\<exists>t'. onBusMessage (Subscribe c u) t = Inr t' \<and>
         emittery t' = emittery t \<and> bus t' = bus t \<and> sinks t' = sinks t) \<and>
   (\<exists>t'. onBusMessage (Unsubscribe c u) t = Inr t' \<and>
         emittery t' = emittery t \<and> bus t' = bus t \<and> sinks t' = sinks t)"
  by (simp add: subscribeLocally_result unsubscribeLocally_result)

theorem bus_subscription_not_reflected_witness:
  "(\<exists>t'. onBusMessage (Subscribe ''news'' ''carol'') instance_with_bus = Inr t' \<and>
         emittery t' = [] \<and> bus t' = Some memoryBus \<and> sinks t' = []) \<and>
   (\<exists>t'. onBusMessage (Unsubscribe ''news'' ''alice'') instance_with_bus = Inr t' \<and>
         emittery t' = [] \<and> bus t' = Some memoryBus \<and> sinks t' = [])"
  using bus_subscription_not_reflected [of "''news''" "''carol''" instance_with_bus]
        bus_subscription_not_reflected [of "''news''" "''alice''" instance_with_bus]
  by (simp add: instance_with_bus_fields)

subsection \<open>Subscriptions requested by the caller\<close>

text \<open>
  C5. When \<open>subscribe(params)\<close> succeeds, one \<open>subscribe\<close> lifecycle event with the
  uid, the channel and the context of the request is emitted and, when there is a
  bus, one Subscribe message with the channel and the uid is published on the
  transport channel. \<open>unsubscribe(params)\<close> is symmetric, with an \<open>unsubscribe\<close>
  event and an Unsubscribe message; it succeeds exactly when the subscription was
  there to remove.
\<close>

theorem subscribe_wiring:
  "(fst (subscribe params t) \<longrightarrow>
      emittery (snd (subscribe params t)) =
        emittery t @ [SubscribeEvent (uid params) (channel params) (ctx params)] \<and>
      bus (snd (subscribe params t)) =
        (case bus t of
           None \<Rightarrow> None
         | Some b \<Rightarrow>
             Some (Bus_publish (transportChannel t) (Subscribe (channel params) (uid params)) b))) \<and>
   (fst (unsubscribe uparams t) \<longrightarrow>
      emittery (snd (unsubscribe uparams t)) =
        emittery t @ [UnsubscribeEvent (uid uparams) (channel uparams) (ctx uparams)] \<and>
      bus (snd (unsubscribe uparams t)) =
        (case bus t of
           None \<Rightarrow> None
         | Some b \<Rightarrow>
             Some (Bus_publish (transportChannel t)
                     (Unsubscribe (channel uparams) (uid uparams)) b))) \<and>
   fst (unsubscribe uparams t) = isSubscribed (manager t) (uid uparams) (channel uparams)"
  by (cases "bus t")
     (simp_all add: subscribe_def unsubscribe_def manager_subscribe_def manager_unsubscribe_def
        run_callback_def publish_fields emit_fields)

theorem subscribe_wiring_witness:
  "fst (subscribe \<lparr>uid = ''carol'', channel = ''sports'', ctx = Some (), skipAuthorization = False\<rparr>
          instance_with_bus) \<and>
   emittery (snd (subscribe
       \<lparr>uid = ''carol'', channel = ''sports'', ctx = Some (), skipAuthorization = False\<rparr>
       instance_with_bus)) = [SubscribeEvent ''carol'' ''sports'' (Some ())] \<and>
   bus (snd (subscribe
       \<lparr>uid = ''carol'', channel = ''sports'', ctx = Some (), skipAuthorization = False\<rparr>
       instance_with_bus)) =
     Some (memoryBus\<lparr>published := [(''transmit::broadcast'', Subscribe ''sports'' ''carol'')]\<rparr>) \<and>
   fst (unsubscribe \<lparr>uid = ''bob'', channel = ''sports'', ctx = Some ()\<rparr> instance_with_bus) \<and>
   emittery (snd (unsubscribe \<lparr>uid = ''bob'', channel = ''sports'', ctx = Some ()\<rparr>
       instance_with_bus)) = [UnsubscribeEvent ''bob'' ''sports'' (Some ())] \<and>
   bus (snd (unsubscribe \<lparr>uid = ''bob'', channel = ''sports'', ctx = Some ()\<rparr>
       instance_with_bus)) =
     Some (memoryBus\<lparr>published := [(''transmit::broadcast'', Unsubscribe ''sports'' ''bob'')]\<rparr>)"
proof -
  have granted:
    "fst (subscribe
            \<lparr>uid = ''carol'', channel = ''sports'', ctx = Some (), skipAuthorization = False\<rparr>
            instance_with_bus)"
    by (simp add: subscribe_def manager_subscribe_def hasStream_def verifyAccess_def
          instance_with_bus_def compile_def match_channel_def bob_def alice_def carol_def)
  have there: "isSubscribed (manager instance_with_bus) ''bob'' ''sports''"
    by (simp add: isSubscribed_def instance_with_bus_def bob_def)
  show ?thesis
    using subscribe_wiring
            [of "\<lparr>uid = ''carol'', channel = ''sports'', ctx = Some (), skipAuthorization = False\<rparr>"
                instance_with_bus
                "\<lparr>uid = ''bob'', channel = ''sports'', ctx = Some ()\<rparr>"]
          granted there
    by (simp add: instance_with_bus_fields Bus_publish_def memoryBus_def)
qed

subsection \<open>Keepalive\<close>

text \<open>
  C6. A configured (truthy) ping interval starts the timer in the constructor.
  Each time the running timer fires, the frame with the channel
  \<open>$$transmit/ping\<close> and the empty payload \<open>{}\<close> is written to every live stream,
  subscribed to anything or not; no lifecycle event is emitted and nothing is
  published to the bus.
\<close>

theorem ping_reaches_every_stream:
  "(pingInterval_truthy (pingInterval cfg) \<and> new_Transmit parse cfg tr = Inr (t0 :: 'ctx Transmit) \<longrightarrow>
      (\<exists>i. interval t0 = Some i \<and> \<not> cleared i)) \<and>
   (interval t = Some i \<and> \<not> cleared i \<longrightarrow>
      (\<exists>t'. intervalElapsed t = Inr t' \<and>
            sinks t' = sinks t @ map (frameFor ''$$transmit/ping'' (BObject [])) (storage (manager t)) \<and>
            emittery t' = emittery t \<and> bus t' = bus t \<and> manager t' = manager t))"
proof (intro conjI impI)
  assume a: "pingInterval_truthy (pingInterval cfg) \<and> new_Transmit parse cfg tr = Inr t0"
  then have "pingInterval_truthy (pingInterval cfg)"
    by blast
  then show "\<exists>i. interval t0 = Some i \<and> \<not> cleared i"
  proof (cases "pingInterval cfg" rule: pingInterval_truthy.cases)
    case (3 n)
    with a show ?thesis
      by (auto simp add: new_Transmit_def Let_def setInterval_def)
  next
    case (4 s)
    with a show ?thesis
      by (auto simp add: new_Transmit_def Let_def setInterval_def split: sum.splits)
  qed simp_all
next
  assume "interval t = Some i \<and> \<not> cleared i"
  then show "\<exists>t'. intervalElapsed t = Inr t' \<and>
            sinks t' = sinks t @ map (frameFor ''$$transmit/ping'' (BObject [])) (storage (manager t)) \<and>
            emittery t' = emittery t \<and> bus t' = bus t \<and> manager t' = manager t"
    by (simp add: intervalElapsed_def ping_def pingAll_returns getAllSubscribers_def
          frameFor_def[abs_def] comp_def)
qed

theorem ping_reaches_every_stream_witness:
  "pingInterval_truthy (pingInterval (config instance_with_bus)) \<and>
   (\<exists>t0 :: unit Transmit.
      new_Transmit (\<lambda>s. Inl (InvalidDuration s)) (config instance_with_bus) (Some ''memory'')
        = Inr t0 \<and>
      interval t0 = Some \<lparr>delay = Finite 30000, cleared = False\<rparr>) \<and>
   (\<exists>t'. intervalElapsed instance_with_bus = Inr t' \<and>
      sinks t' =
        [(''bob'', \<lparr>data_channel = ''$$transmit/ping'', data_payload = BObject []\<rparr>, False),
         (''alice'', \<lparr>data_channel = ''$$transmit/ping'', data_payload = BObject []\<rparr>, True),
         (''carol'', \<lparr>data_channel = ''$$transmit/ping'', data_payload = BObject []\<rparr>, True)] \<and>
      emittery t' = [] \<and> bus t' = Some memoryBus)"
proof -
  have configured: "pingInterval_truthy (pingInterval (config instance_with_bus))"
    by (simp add: instance_with_bus_def)
  have started:
    "\<exists>t0 :: unit Transmit.
       new_Transmit (\<lambda>s. Inl (InvalidDuration s)) (config instance_with_bus) (Some ''memory'')
         = Inr t0 \<and>
       interval t0 = Some \<lparr>delay = Finite 30000, cleared = False\<rparr>"
    by (simp add: new_Transmit_def Let_def setInterval_def instance_with_bus_def)
  have running: "interval instance_with_bus = Some \<lparr>delay = Finite 30000, cleared = False\<rparr>
                 \<and> \<not> cleared \<lparr>delay = Finite 30000, cleared = False\<rparr>"
    by (simp add: instance_with_bus_fields)
  from running
    ping_reaches_every_stream
      [where ?'ctx = unit and t = instance_with_bus
         and i = "\<lparr>delay = Finite 30000, cleared = False\<rparr>"]
  have "\<exists>t'. intervalElapsed instance_with_bus = Inr t' \<and>
          sinks t' = sinks instance_with_bus @
            map (frameFor ''$$transmit/ping'' (BObject [])) (storage (manager instance_with_bus)) \<and>
          emittery t' = emittery instance_with_bus \<and> bus t' = bus instance_with_bus \<and>
          manager t' = manager instance_with_bus"
    by blast
  then have fired:
    "\<exists>t'. intervalElapsed instance_with_bus = Inr t' \<and>
       sinks t' =
         [(''bob'', \<lparr>data_channel = ''$$transmit/ping'', data_payload = BObject []\<rparr>, False),
          (''alice'', \<lparr>data_channel = ''$$transmit/ping'', data_payload = BObject []\<rparr>, True),
          (''carol'', \<lparr>data_channel = ''$$transmit/ping'', data_payload = BObject []\<rparr>, True)] \<and>
       emittery t' = [] \<and> bus t' = Some memoryBus"
    by (auto simp add: instance_with_bus_fields frames_bob_alice)
  from configured started fired show ?thesis
    by blast
qed

subsection \<open>Shutdown\<close>

text \<open>
  C7, as the code has it. \<open>shutdown()\<close> clears the keepalive timer when there is
  one, after which the timer no longer pings, and then awaits the \<open>disconnect\<close> of
  the bus when there is one, completing as that call does: the timer is cleared
  also when \<open>disconnect\<close> rejects. Without a bus it only clears the timer and
  completes, and a second call is a no-op. With a bus a second call calls
  \<open>disconnect\<close> on the disconnected bus again: it is a no-op without error exactly
  when that repeated \<open>disconnect\<close> is.
\<close>

theorem shutdown_repeats_disconnect:
  "(bus t = None \<longrightarrow>
      shutdown d t = Inr (t\<lparr>interval := map_option clearInterval (interval t)\<rparr>) \<and>
      shutdown d (t\<lparr>interval := map_option clearInterval (interval t)\<rparr>) =
        Inr (t\<lparr>interval := map_option clearInterval (interval t)\<rparr>)) \<and>
   (\<forall>b. bus t = Some b \<longrightarrow>
      shutdown d t =
        (case d b of
           Inl (e, b') \<Rightarrow>
             Inl (e, t\<lparr>interval := map_option clearInterval (interval t), bus := Some b'\<rparr>)
         | Inr b' \<Rightarrow>
             Inr (t\<lparr>interval := map_option clearInterval (interval t), bus := Some b'\<rparr>))) \<and>
   interval (instanceAfter (shutdown d t)) = map_option clearInterval (interval t) \<and>
   intervalElapsed (instanceAfter (shutdown d t)) = Inr (instanceAfter (shutdown d t)) \<and>
   manager (instanceAfter (shutdown d t)) = manager t \<and>
   emittery (instanceAfter (shutdown d t)) = emittery t \<and>
   sinks (instanceAfter (shutdown d t)) = sinks t \<and>
   (\<forall>t' b'. shutdown d t = Inr t' \<and> bus t' = Some b' \<longrightarrow>
      (shutdown d t' = Inr t') = (d b' = Inr b'))"
proof -
  let ?t1 = "t\<lparr>interval := map_option clearInterval (interval t)\<rparr>"
  have first: "(case interval t of
                  Some i \<Rightarrow> t\<lparr>interval := Some (clearInterval i)\<rparr>
                | None \<Rightarrow> t) = ?t1"
    by (cases "interval t") simp_all
  have unfolded: "shutdown d t =
      (case bus t of
         None \<Rightarrow> Inr ?t1
       | Some b \<Rightarrow>
           (case d b of
              Inl (e, b') \<Rightarrow> Inl (e, ?t1\<lparr>bus := Some b'\<rparr>)
            | Inr b' \<Rightarrow> Inr (?t1\<lparr>bus := Some b'\<rparr>)))"
    by (simp add: shutdown_def first Let_def)
  have no_bus: "bus t = None \<longrightarrow> shutdown d t = Inr ?t1 \<and> shutdown d ?t1 = Inr ?t1"
  proof
    assume none: "bus t = None"
    have "(case interval ?t1 of
             Some i \<Rightarrow> ?t1\<lparr>interval := Some (clearInterval i)\<rparr>
           | None \<Rightarrow> ?t1) = ?t1"
      by (cases "interval t") (simp_all add: clearInterval_def)
    with none show "shutdown d t = Inr ?t1 \<and> shutdown d ?t1 = Inr ?t1"
      by (simp add: unfolded) (simp add: shutdown_def Let_def)
  qed
  have with_bus: "\<forall>b. bus t = Some b \<longrightarrow>
      shutdown d t =
        (case d b of
           Inl (e, b') \<Rightarrow> Inl (e, ?t1\<lparr>bus := Some b'\<rparr>)
         | Inr b' \<Rightarrow> Inr (?t1\<lparr>bus := Some b'\<rparr>))"
    by (simp add: unfolded)
  have fields:
    "interval (instanceAfter (shutdown d t)) = map_option clearInterval (interval t)"
    "manager (instanceAfter (shutdown d t)) = manager t"
    "emittery (instanceAfter (shutdown d t)) = emittery t"
    "sinks (instanceAfter (shutdown d t)) = sinks t"
    by (simp_all add: unfolded split: option.splits sum.splits prod.splits)
  have silent: "intervalElapsed (instanceAfter (shutdown d t)) = Inr (instanceAfter (shutdown d t))"
    using fields(1)
    by (cases "interval t") (simp_all add: intervalElapsed_def clearInterval_def)
  have again: "\<forall>t' b'. shutdown d t = Inr t' \<and> bus t' = Some b' \<longrightarrow>
      (shutdown d t' = Inr t') = (d b' = Inr b')"
  proof (intro allI impI)
    fix t' b' assume a: "shutdown d t = Inr t' \<and> bus t' = Some b'"
    then have "instanceAfter (shutdown d t) = t'"
      by simp
    with fields(1) have cleared: "interval t' = map_option clearInterval (interval t)"
      by simp
    have same_timer: "(case interval t' of
                         Some i \<Rightarrow> t'\<lparr>interval := Some (clearInterval i)\<rparr>
                       | None \<Rightarrow> t') = t'"
      using cleared by (cases "interval t") (simp_all add: clearInterval_def)
    have same_bus: "(t'\<lparr>bus := Some b''\<rparr> = t') = (b'' = b')" for b''
    proof
      assume "t'\<lparr>bus := Some b''\<rparr> = t'"
      then have "bus (t'\<lparr>bus := Some b''\<rparr>) = bus t'"
        by simp
      with a show "b'' = b'"
        by simp
    next
      assume "b'' = b'"
      with a show "t'\<lparr>bus := Some b''\<rparr> = t'"
        by simp
    qed
    from a have "shutdown d t' =
        (case d b' of
           Inl (e, b'') \<Rightarrow> Inl (e, t'\<lparr>bus := Some b''\<rparr>)
         | Inr b'' \<Rightarrow> Inr (t'\<lparr>bus := Some b''\<rparr>))"
      by (simp add: shutdown_def same_timer Let_def)
    then show "(shutdown d t' = Inr t') = (d b' = Inr b')"
      by (cases "d b'") (auto simp add: same_bus)
  qed
  from no_bus with_bus fields silent again show ?thesis
    by blast
qed

theorem shutdown_repeats_disconnect_witness:
  "shutdown lenientDisconnect instance_without_bus =
     Inr (instance_without_bus\<lparr>interval := Some \<lparr>delay = Finite 30000, cleared = True\<rparr>\<rparr>) \<and>
   shutdown lenientDisconnect
       (instance_without_bus\<lparr>interval := Some \<lparr>delay = Finite 30000, cleared = True\<rparr>\<rparr>) =
     Inr (instance_without_bus\<lparr>interval := Some \<lparr>delay = Finite 30000, cleared = True\<rparr>\<rparr>) \<and>
   shutdown lenientDisconnect instance_with_bus =
     Inr (instance_with_bus
            \<lparr>interval := Some \<lparr>delay = Finite 30000, cleared = True\<rparr>,
             bus := Some (memoryBus\<lparr>disconnected := True\<rparr>)\<rparr>) \<and>
   shutdown lenientDisconnect
       (instance_with_bus
          \<lparr>interval := Some \<lparr>delay = Finite 30000, cleared = True\<rparr>,
           bus := Some (memoryBus\<lparr>disconnected := True\<rparr>)\<rparr>) =
     Inr (instance_with_bus
            \<lparr>interval := Some \<lparr>delay = Finite 30000, cleared = True\<rparr>,
             bus := Some (memoryBus\<lparr>disconnected := True\<rparr>)\<rparr>) \<and>
   shutdown strictDisconnect
       (instance_with_bus\<lparr>bus := Some (memoryBus\<lparr>disconnected := True\<rparr>)\<rparr>) =
     Inl (BusFailure ''Connection is closed.'',
          instance_with_bus
            \<lparr>interval := Some \<lparr>delay = Finite 30000, cleared = True\<rparr>,
             bus := Some (memoryBus\<lparr>disconnected := True\<rparr>)\<rparr>)"
proof -
  let ?off = "instance_without_bus\<lparr>interval := Some \<lparr>delay = Finite 30000, cleared = True\<rparr>\<rparr>"
  let ?down = "instance_with_bus
                 \<lparr>interval := Some \<lparr>delay = Finite 30000, cleared = True\<rparr>,
                  bus := Some (memoryBus\<lparr>disconnected := True\<rparr>)\<rparr>"
  let ?closed = "instance_with_bus\<lparr>bus := Some (memoryBus\<lparr>disconnected := True\<rparr>)\<rparr>"
  note without = shutdown_repeats_disconnect [of instance_without_bus lenientDisconnect]
    and with_bus = shutdown_repeats_disconnect [of instance_with_bus lenientDisconnect]
    and rejected = shutdown_repeats_disconnect [of ?closed strictDisconnect]
  have none: "bus instance_without_bus = None"
    by (simp add: instance_without_bus_fields)
  from without none have first:
    "shutdown lenientDisconnect instance_without_bus = Inr ?off"
    "shutdown lenientDisconnect ?off = Inr ?off"
    by (simp_all add: instance_without_bus_fields instance_with_bus_fields clearInterval_def)
  from with_bus have second: "shutdown lenientDisconnect instance_with_bus = Inr ?down"
    by (simp add: instance_with_bus_fields clearInterval_def lenientDisconnect_def)
  have "bus ?down = Some (memoryBus\<lparr>disconnected := True\<rparr>)"
    by simp
  with with_bus second have
    "(shutdown lenientDisconnect ?down = Inr ?down) =
       (lenientDisconnect (memoryBus\<lparr>disconnected := True\<rparr>)
          = Inr (memoryBus\<lparr>disconnected := True\<rparr>))"
    by blast
  then have third: "shutdown lenientDisconnect ?down = Inr ?down"
    by (simp add: lenientDisconnect_def)
  have "bus ?closed = Some (memoryBus\<lparr>disconnected := True\<rparr>)"
    by simp
  with rejected have "shutdown strictDisconnect ?closed =
      (case strictDisconnect (memoryBus\<lparr>disconnected := True\<rparr>) of
         Inl (e, b') \<Rightarrow>
           Inl (e, ?closed\<lparr>interval := map_option clearInterval (interval ?closed), bus := Some b'\<rparr>)
       | Inr b' \<Rightarrow>
           Inr (?closed\<lparr>interval := map_option clearInterval (interval ?closed), bus := Some b'\<rparr>))"
    by blast
  then have fourth: "shutdown strictDisconnect ?closed =
      Inl (BusFailure ''Connection is closed.'', ?down)"
    by (simp add: strictDisconnect_def instance_with_bus_fields clearInterval_def)
  from first second third fourth show ?thesis
    by blast
qed

text \<open>
  The claim as it is worded, with a second call that is a no-op and completes
  without error, fails on a bus whose \<open>disconnect\<close> rejects on a closed connection:
  \<open>shutdown\<close> has no guard of its own, and the second call rejects.
\<close>

theorem shutdown_twice_counterexample:
  "shutdown strictDisconnect instance_with_bus =
     Inr (instance_with_bus
            \<lparr>interval := Some \<lparr>delay = Finite 30000, cleared = True\<rparr>,
             bus := Some (memoryBus\<lparr>disconnected := True\<rparr>)\<rparr>) \<and>
   shutdown strictDisconnect
       (instance_with_bus
          \<lparr>interval := Some \<lparr>delay = Finite 30000, cleared = True\<rparr>,
           bus := Some (memoryBus\<lparr>disconnected := True\<rparr>)\<rparr>) =
     Inl (BusFailure ''Connection is closed.'',
          instance_with_bus
            \<lparr>interval := Some \<lparr>delay = Finite 30000, cleared = True\<rparr>,
             bus := Some (memoryBus\<lparr>disconnected := True\<rparr>)\<rparr>)"
  by (simp add: shutdown_def Let_def strictDisconnect_def clearInterval_def
        instance_with_bus_def memoryBus_def)

subsection \<open>A sink that fails\<close>

text \<open>
  C8. The loop of the fan-out has no handler of its own; the write to a stream
  whose sink fails is caught at the stream and comes back without an exception.
  So, whichever sinks fail, the local fan-out, \<open>broadcast\<close>, \<open>broadcastExcept\<close> and
  the replay of a broadcast from the bus all return, and each of them has written
  to every stream indexed for the channel that is not excluded, in the order of
  the index, the streams after a failing one too: the entry of a stream tells
  whether its own sink took the frame, and no entry is missing.
\<close>

theorem fanOut_survives_sink_failure:
  "(\<exists>t'. broadcastLocally c p x t = Inr t' \<and>
      sinks t' = sinks t @ map (frameFor c p)
                   (filter (\<lambda>s. \<not> skipped x (getUid s)) (findByChannel (manager t) c)) \<and>
      (\<forall>before failing rest s.
          findByChannel (manager t) c = before @ failing # rest \<and>
          \<not> sinkWritable failing \<and> s \<in> set rest \<and> \<not> skipped x (getUid s) \<longrightarrow>
            frameFor c p s \<in> set (drop (length (sinks t)) (sinks t')))) \<and>
   (\<exists>t'. broadcast c payload t = Inr t' \<and>
      sinks t' = sinks t @ map (frameFor c (payloadOrEmpty payload))
                   (findByChannel (manager t) c)) \<and>
   (\<exists>t'. broadcastExcept c p y t = Inr t' \<and>
      sinks t' = sinks t @ map (frameFor c p)
                   (filter (\<lambda>s. \<not> skipped (Some y) (getUid s)) (findByChannel (manager t) c))) \<and>
   (\<exists>t'. onBusMessage (Broadcast c p) t = Inr t' \<and>
      sinks t' = sinks t @ map (frameFor c p) (findByChannel (manager t) c))"
proof (intro conjI)
  show "\<exists>t'. broadcastLocally c p x t = Inr t' \<and>
      sinks t' = sinks t @ map (frameFor c p)
                   (filter (\<lambda>s. \<not> skipped x (getUid s)) (findByChannel (manager t) c)) \<and>
      (\<forall>before failing rest s.
          findByChannel (manager t) c = before @ failing # rest \<and>
          \<not> sinkWritable failing \<and> s \<in> set rest \<and> \<not> skipped x (getUid s) \<longrightarrow>
            frameFor c p s \<in> set (drop (length (sinks t)) (sinks t')))"
    by (auto simp add: broadcastLocally_returns)
  show "\<exists>t'. broadcast c payload t = Inr t' \<and>
      sinks t' = sinks t @ map (frameFor c (payloadOrEmpty payload))
                   (findByChannel (manager t) c)"
    by (simp add: broadcast_def Let_def broadcastLocally_returns publish_fields emit_fields)
  show "\<exists>t'. broadcastExcept c p y t = Inr t' \<and>
      sinks t' = sinks t @ map (frameFor c p)
                   (filter (\<lambda>s. \<not> skipped (Some y) (getUid s)) (findByChannel (manager t) c))"
    by (simp add: broadcastExcept_def broadcastLocally_returns)
  show "\<exists>t'. onBusMessage (Broadcast c p) t = Inr t' \<and>
      sinks t' = sinks t @ map (frameFor c p) (findByChannel (manager t) c)"
    by (simp add: broadcastLocally_returns)
qed

text \<open>
  On the example instance Bob's sink fails and Bob is written to first: Alice,
  who comes after him, gets the frame from each of the four.
\<close>

theorem fanOut_survives_sink_failure_witness:
  "findByChannel (manager instance_with_bus) ''news'' = [] @ bob # [alice] \<and>
   \<not> sinkWritable bob \<and> alice \<in> set [alice] \<and> \<not> skipped None (getUid alice) \<and>
   (\<exists>t'. broadcastLocally ''news'' (BString ''hello'') None instance_with_bus = Inr t' \<and>
      sinks t' =
        [(''bob'', \<lparr>data_channel = ''news'', data_payload = BString ''hello''\<rparr>, False),
         (''alice'', \<lparr>data_channel = ''news'', data_payload = BString ''hello''\<rparr>, True)] \<and>
      frameFor ''news'' (BString ''hello'') alice
        \<in> set (drop (length (sinks instance_with_bus)) (sinks t'))) \<and>
   (\<exists>t'. broadcast ''news'' (Some (BString ''hello'')) instance_with_bus = Inr t' \<and>
      sinks t' =
        [(''bob'', \<lparr>data_channel = ''news'', data_payload = BString ''hello''\<rparr>, False),
         (''alice'', \<lparr>data_channel = ''news'', data_payload = BString ''hello''\<rparr>, True)]) \<and>
   (\<exists>t'. broadcastExcept ''news'' (BString ''hello'') (Uid ''dave'') instance_with_bus = Inr t' \<and>
      sinks t' =
        [(''bob'', \<lparr>data_channel = ''news'', data_payload = BString ''hello''\<rparr>, False),
         (''alice'', \<lparr>data_channel = ''news'', data_payload = BString ''hello''\<rparr>, True)]) \<and>
   (\<exists>t'. onBusMessage (Broadcast ''news'' (BString ''hello'')) instance_with_bus = Inr t' \<and>
      sinks t' =
        [(''bob'', \<lparr>data_channel = ''news'', data_payload = BString ''hello''\<rparr>, False),
         (''alice'', \<lparr>data_channel = ''news'', data_payload = BString ''hello''\<rparr>, True)])"
proof -
  note all = fanOut_survives_sink_failure
               [of "''news''" "BString ''hello''" None instance_with_bus
                   "Some (BString ''hello'')" "Uid ''dave''"]
  have split: "findByChannel (manager instance_with_bus) ''news'' = [] @ bob # [alice]"
    by (simp add: findByChannel_news)
  have broken: "\<not> sinkWritable bob"
    by (simp add: bob_def)
  have payload: "payloadOrEmpty (Some (BString ''hello'')) = BString ''hello''"
    by (simp add: payloadOrEmpty_def)
  from all obtain t' where local:
    "broadcastLocally ''news'' (BString ''hello'') None instance_with_bus = Inr t'"
    "sinks t' = sinks instance_with_bus @ map (frameFor ''news'' (BString ''hello''))
                  (filter (\<lambda>s. \<not> skipped None (getUid s))
                     (findByChannel (manager instance_with_bus) ''news''))"
    "\<forall>before failing rest s.
        findByChannel (manager instance_with_bus) ''news'' = before @ failing # rest \<and>
        \<not> sinkWritable failing \<and> s \<in> set rest \<and> \<not> skipped None (getUid s) \<longrightarrow>
          frameFor ''news'' (BString ''hello'') s
            \<in> set (drop (length (sinks instance_with_bus)) (sinks t'))"
    by blast
  from local(3) split broken
  have reached: "frameFor ''news'' (BString ''hello'') alice
                   \<in> set (drop (length (sinks instance_with_bus)) (sinks t'))"
    by (metis list.set_intros(1) skipped.simps(1))
  have first: "\<exists>t'. broadcastLocally ''news'' (BString ''hello'') None instance_with_bus = Inr t' \<and>
      sinks t' =
        [(''bob'', \<lparr>data_channel = ''news'', data_payload = BString ''hello''\<rparr>, False),
         (''alice'', \<lparr>data_channel = ''news'', data_payload = BString ''hello''\<rparr>, True)] \<and>
      frameFor ''news'' (BString ''hello'') alice
        \<in> set (drop (length (sinks instance_with_bus)) (sinks t'))"
    using local(1,2) reached
    by (auto simp add: findByChannel_news instance_with_bus_fields frames_bob_alice)
  from all have others:
    "\<exists>t'. broadcast ''news'' (Some (BString ''hello'')) instance_with_bus = Inr t' \<and>
      sinks t' =
        [(''bob'', \<lparr>data_channel = ''news'', data_payload = BString ''hello''\<rparr>, False),
         (''alice'', \<lparr>data_channel = ''news'', data_payload = BString ''hello''\<rparr>, True)]"
    "\<exists>t'. broadcastExcept ''news'' (BString ''hello'') (Uid ''dave'') instance_with_bus = Inr t' \<and>
      sinks t' =
        [(''bob'', \<lparr>data_channel = ''news'', data_payload = BString ''hello''\<rparr>, False),
         (''alice'', \<lparr>data_channel = ''news'', data_payload = BString ''hello''\<rparr>, True)]"
    "\<exists>t'. onBusMessage (Broadcast ''news'' (BString ''hello'')) instance_with_bus = Inr t' \<and>
      sinks t' =
        [(''bob'', \<lparr>data_channel = ''news'', data_payload = BString ''hello''\<rparr>, False),
         (''alice'', \<lparr>data_channel = ''news'', data_payload = BString ''hello''\<rparr>, True)]"
    by (auto simp add: findByChannel_news instance_with_bus_fields frames_bob_alice
          uids_bob_alice_carol payload)
  from split broken first others show ?thesis
    by simp
qed

subsection \<open>Falsy payloads\<close>

text \<open>
  C9. The falsy payloads are the absent one (\<open>undefined\<close>), \<open>null\<close>, \<open>0\<close>, the empty
  string and \<open>false\<close> (and NaN). For each of them \<open>broadcast\<close> puts the empty object
  \<open>{}\<close> in the message published to the bus, in the frames written to the local
  subscribers and in the \<open>broadcast\<close> event; the value of the call is not
  delivered.
\<close>

theorem broadcast_falsy_payload:
  "falsy None \<and> falsy (Some BNull) \<and> falsy (Some (BNumber (Finite 0))) \<and>
   falsy (Some (BString [])) \<and> falsy (Some (BBool False)) \<and>
   (falsy payload \<longrightarrow>
     (\<exists>t'. broadcast c payload t = Inr t' \<and>
        bus t' = (case bus t of
                    None \<Rightarrow> None
                  | Some b \<Rightarrow>
                      Some (Bus_publish (transportChannel t) (Broadcast c (BObject [])) b)) \<and>
        sinks t' = sinks t @ map (frameFor c (BObject [])) (findByChannel (manager t) c) \<and>
        emittery t' = emittery t @ [BroadcastEvent c (BObject [])]))"
  by (cases "bus t")
     (simp_all add: broadcast_def Let_def broadcastLocally_returns publish_fields emit_fields
        payloadOrEmpty_falsy)

theorem broadcast_falsy_payload_witness:
  "falsy (Some BNull) \<and>
   (\<exists>t'. broadcast ''news'' (Some BNull) instance_with_bus = Inr t' \<and>
      bus t' = Some (memoryBus
                 \<lparr>published := [(''transmit::broadcast'', Broadcast ''news'' (BObject []))]\<rparr>) \<and>
      sinks t' =
        [(''bob'', \<lparr>data_channel = ''news'', data_payload = BObject []\<rparr>, False),
         (''alice'', \<lparr>data_channel = ''news'', data_payload = BObject []\<rparr>, True)] \<and>
      emittery t' = [BroadcastEvent ''news'' (BObject [])])"
  using broadcast_falsy_payload [of "Some BNull" "''news''" instance_with_bus]
  by (auto simp add: instance_with_bus_fields findByChannel_news frames_bob_alice
        Bus_publish_def memoryBus_def)

end
